theory Spec2Isabelle
  imports Main
begin

section \<open>Python values and the operations the validator applies to them\<close>

text \<open>
  The validator of \<^verbatim>\<open>json_validator.py\<close> handles values that come out of
  \<^verbatim>\<open>json.loads\<close>: the reply of the language model is decoded and two of its fields
  are stored in the workflow state without any check of their type. The values are
  therefore modelled as Python has them. A float is a mantissa and a binary exponent,
  or one of the three special values that \<^verbatim>\<open>json.loads\<close> accepts. A dictionary is
  an association list in insertion order. A character of a string is a \<^typ>\<open>char\<close>.
\<close>

datatype pyfloat = Finite int int | Infinity | NegInfinity | NaN

datatype pyval =
    PNone
  | PBool bool
  | PInt int
  | PFloat pyfloat
  | PStr string
  | PList "pyval list"
  | PDict "(string \<times> pyval) list"

text \<open>The exceptions that the code of the validator itself can raise.\<close>

datatype py_error = TypeError string | AttributeError string

fun str_of_error :: "py_error \<Rightarrow> string" where
  "str_of_error (TypeError m) = m"
| "str_of_error (AttributeError m) = m"

definition apostrophe :: string where
  "apostrophe = [CHR 0x27]"

fun type_name :: "pyval \<Rightarrow> string" where
  "type_name PNone = ''NoneType''"
| "type_name (PBool b) = ''bool''"
| "type_name (PInt i) = ''int''"
| "type_name (PFloat f) = ''float''"
| "type_name (PStr s) = ''str''"
| "type_name (PList xs) = ''list''"
| "type_name (PDict kvs) = ''dict''"

text \<open>Truth value of a value in a condition (\<^verbatim>\<open>if v:\<close>).\<close>

fun truthy :: "pyval \<Rightarrow> bool" where
  "truthy PNone = False"
| "truthy (PBool b) = b"
| "truthy (PInt i) = (i \<noteq> 0)"
| "truthy (PFloat (Finite m e)) = (m \<noteq> 0)"
| "truthy (PFloat f) = True"
| "truthy (PStr s) = (s \<noteq> [])"
| "truthy (PList xs) = (xs \<noteq> [])"
| "truthy (PDict kvs) = (kvs \<noteq> [])"

text \<open>\<^verbatim>\<open>len(v)\<close>: defined on strings, lists and dictionaries, a TypeError otherwise.\<close>

fun py_len :: "pyval \<Rightarrow> py_error + nat" where
  "py_len (PStr s) = Inr (length s)"
| "py_len (PList xs) = Inr (length xs)"
| "py_len (PDict kvs) = Inr (length kvs)"
| "py_len v = Inl (TypeError (''object of type '' @ apostrophe @ type_name v @ apostrophe
                               @ '' has no len()''))"

text \<open>\<^verbatim>\<open>v.get(key, default)\<close>: only a dictionary has the method.\<close>

fun py_get :: "pyval \<Rightarrow> string \<Rightarrow> pyval \<Rightarrow> py_error + pyval" where
  "py_get (PDict kvs) k d = Inr (case map_of kvs k of None \<Rightarrow> d | Some v \<Rightarrow> v)"
| "py_get v k d = Inl (AttributeError (apostrophe @ type_name v @ apostrophe
                        @ '' object has no attribute '' @ apostrophe @ ''get'' @ apostrophe))"

text \<open>\<^verbatim>\<open>sep.join(xs)\<close> on a list of strings.\<close>

fun join :: "string \<Rightarrow> string list \<Rightarrow> string" where
  "join sep [] = []"
| "join sep [x] = x"
| "join sep (x # y # ys) = x @ sep @ join sep (y # ys)"

fun digit_char :: "nat \<Rightarrow> char" where
  "digit_char n = char_of (48 + n)"

fun string_of_nat :: "nat \<Rightarrow> string" where
  "string_of_nat n =
     (if n < 10 then [digit_char n] else string_of_nat (n div 10) @ [digit_char (n mod 10)])"

text \<open>
  \<^verbatim>\<open>sep.join(v)\<close> on an arbitrary value: a string is iterated character by character,
  a dictionary by its keys, and the first element of a list that is not a string raises
  a TypeError naming its position.
\<close>

fun join_items :: "nat \<Rightarrow> pyval list \<Rightarrow> py_error + string list" where
  "join_items i [] = Inr []"
| "join_items i (PStr s # vs) =
     (case join_items (Suc i) vs of Inl e \<Rightarrow> Inl e | Inr ss \<Rightarrow> Inr (s # ss))"
| "join_items i (v # vs) =
     Inl (TypeError (''sequence item '' @ string_of_nat i @ '': expected str instance, ''
                     @ type_name v @ '' found''))"

fun py_join :: "string \<Rightarrow> pyval \<Rightarrow> py_error + string" where
  "py_join sep (PStr s) = Inr (join sep (map (\<lambda>c. [c]) s))"
| "py_join sep (PList vs) =
     (case join_items 0 vs of Inl e \<Rightarrow> Inl e | Inr ss \<Rightarrow> Inr (join sep ss))"
| "py_join sep (PDict kvs) = Inr (join sep (map fst kvs))"
| "py_join sep v = Inl (TypeError ''can only join an iterable'')"

section \<open>The external collaborators\<close>

text \<open>
  Three library calls decide what the validator does and are not code of the
  repository: \<^verbatim>\<open>jsonschema.validate\<close>, the chat model behind \<^verbatim>\<open>self.llm.invoke\<close>,
  and \<^verbatim>\<open>json.loads\<close> (with \<^verbatim>\<open>json.dumps\<close> for the prompt). They are parameters
  of the model. Each outcome type lists what the call can do as far as the
  \<^verbatim>\<open>try\<close> blocks around it tell the cases apart; the strings carried are \<^verbatim>\<open>str(e)\<close>.
  The chat model is the only one with effects, so it takes and returns a world \<open>'w\<close>.
  \<^verbatim>\<open>json.dumps\<close> can raise as well (a RecursionError on a document nested too deep).
\<close>

datatype check_outcome =
    Conforms
  | RaisesValidationError string
  | RaisesException string

datatype llm_outcome = Responds string | LlmRaises string

datatype loads_outcome = Loaded pyval | RaisesJSONDecodeError | LoadsRaises string

datatype dumps_outcome = Dumped string | DumpsRaises string

datatype message = SystemMessage string | HumanMessage string

record 'w env =
  jsonschema_validate :: "pyval \<Rightarrow> pyval \<Rightarrow> check_outcome"
  llm_invoke :: "'w \<Rightarrow> message list \<Rightarrow> llm_outcome \<times> 'w"
  json_loads :: "string \<Rightarrow> loads_outcome"
  json_dumps :: "pyval \<Rightarrow> dumps_outcome"

section \<open>Workflow state and report\<close>

datatype ValidationStatus =
    PENDING
  | SCHEMA_VALID
  | SCHEMA_INVALID
  | SEMANTIC_VALID
  | SEMANTIC_INVALID
  | COMPLETE

record 'e verdict =
  passed :: bool
  errors :: 'e

record report =
  overall_valid :: bool
  schema_validation :: "string list verdict"
  semantic_validation :: "pyval verdict"
  summary :: string

text \<open>
  \<^verbatim>\<open>semantic_errors\<close> is declared \<^verbatim>\<open>List[str]\<close>, but the semantic node stores there
  whatever the decoded reply holds under \<^verbatim>\<open>"errors"\<close>, so the field is a \<^typ>\<open>pyval\<close>.
  The report starts as the empty dictionary, here \<^term>\<open>None\<close>.
\<close>

record ValidationState =
  json_data :: pyval
  schema :: pyval
  custom_rules :: "string list"
  status :: ValidationStatus
  schema_errors :: "string list"
  semantic_errors :: pyval
  is_valid :: bool
  validation_report :: "report option"

section \<open>The nodes of the workflow\<close>

definition schema_validation_node :: "'w env \<Rightarrow> ValidationState \<Rightarrow> ValidationState" where
  "schema_validation_node env state =
     (case jsonschema_validate env (json_data state) (schema state) of
        Conforms \<Rightarrow> state\<lparr>status := SCHEMA_VALID, schema_errors := []\<rparr>
      | RaisesValidationError e \<Rightarrow> state\<lparr>status := SCHEMA_INVALID, schema_errors := [e]\<rparr>
      | RaisesException e \<Rightarrow>
          state\<lparr>status := SCHEMA_INVALID,
                schema_errors := [''Schema validation error: '' @ e]\<rparr>)"

definition system_prompt :: "string \<Rightarrow> string" where
  \<open>system_prompt rules =
     ''You are a JSON validation expert. Analyze the provided JSON data against the custom rules and determine if it''
     @ apostrophe @ ''s valid.\<newline>\<newline>Rules to validate:\<newline>''
     @ rules
     @ ''\<newline>\<newline>Respond with a JSON object containing:\<newline>''
     @ ''- "is_valid": boolean\<newline>''
     @ ''- "errors": list of error messages (empty if valid)\<newline>''
     @ ''- "warnings": list of warning messages (optional)\<newline>\<newline>''
     @ ''Be thorough and check each rule carefully.''\<close>

text \<open>
  The f-string of the human prompt calls \<^verbatim>\<open>json.dumps(state['json_data'], indent=2)\<close>.
  The call is inside the \<^verbatim>\<open>try\<close> of the semantic node and comes before the request is
  put together: when it raises, the result is \<^term>\<open>Inl\<close> of \<^verbatim>\<open>str(e)\<close> and there is no
  prompt.
\<close>

definition human_prompt :: "'w env \<Rightarrow> pyval \<Rightarrow> string list \<Rightarrow> string + string" where
  "human_prompt env data rules =
     (case json_dumps env data of
        DumpsRaises e \<Rightarrow> Inl e
      | Dumped text \<Rightarrow>
          Inr (''JSON Data to validate:\<newline>''
               @ text
               @ ''\<newline>\<newline>Custom Rules:\<newline>''
               @ join ''\<newline>'' (map (\<lambda>rule. ''- '' @ rule) rules)
               @ ''\<newline>\<newline>Please validate this JSON against the rules and provide your assessment.''))"

text \<open>
  The request sent to the chat model. The source builds it from \<^verbatim>\<open>state['json_data']\<close>
  and \<^verbatim>\<open>state['custom_rules']\<close>, the two arguments here. There is a request only if
  the human prompt could be built.
\<close>

definition messages :: "'w env \<Rightarrow> pyval \<Rightarrow> string list \<Rightarrow> string + message list" where
  "messages env data rules =
     (case human_prompt env data rules of
        Inl e \<Rightarrow> Inl e
      | Inr prompt \<Rightarrow>
          Inr [SystemMessage (system_prompt (join ''\<newline>'' rules)), HumanMessage prompt])"

text \<open>What the outer \<^verbatim>\<open>except Exception as e\<close> of the semantic node does.\<close>

definition semantic_exception :: "string \<Rightarrow> ValidationState \<Rightarrow> ValidationState" where
  "semantic_exception e state =
     state\<lparr>status := SEMANTIC_INVALID,
           semantic_errors := PList [PStr (''Semantic validation error: '' @ e)]\<rparr>"

text \<open>
  The inner \<^verbatim>\<open>try\<close>: decode the reply and read its fields. Only a JSONDecodeError is
  handled there; any other exception (the AttributeError of \<^verbatim>\<open>.get\<close> on a value that is
  not a dictionary, for one) reaches the outer handler.
\<close>

definition parse_response :: "'w env \<Rightarrow> string \<Rightarrow> ValidationState \<Rightarrow> ValidationState" where
  "parse_response env content state =
     (case json_loads env content of
        RaisesJSONDecodeError \<Rightarrow>
          state\<lparr>status := SEMANTIC_INVALID,
                semantic_errors := PList [PStr ''Failed to parse LLM validation response'']\<rparr>
      | LoadsRaises e \<Rightarrow> semantic_exception e state
      | Loaded validation_result \<Rightarrow>
          (case py_get validation_result ''is_valid'' (PBool False) of
             Inl e \<Rightarrow> semantic_exception (str_of_error e) state
           | Inr v \<Rightarrow>
               if truthy v
               then state\<lparr>status := SEMANTIC_VALID, semantic_errors := PList []\<rparr>
               else (case py_get validation_result ''errors''
                            (PList [PStr ''Semantic validation failed'']) of
                       Inl e \<Rightarrow> semantic_exception (str_of_error e) state
                     | Inr es \<Rightarrow>
                         state\<lparr>status := SEMANTIC_INVALID, semantic_errors := es\<rparr>)))"

definition semantic_validation_node ::
    "'w env \<Rightarrow> 'w \<Rightarrow> ValidationState \<Rightarrow> ValidationState \<times> 'w" where
  "semantic_validation_node env w state =
     (if status state = SCHEMA_INVALID
      then (state\<lparr>semantic_errors := PList [PStr ''Skipped due to schema validation failure'']\<rparr>, w)
      else (case messages env (json_data state) (custom_rules state) of
              Inl e \<Rightarrow> (semantic_exception e state, w)
            | Inr msgs \<Rightarrow>
                (case llm_invoke env w msgs of
                   (LlmRaises e, w') \<Rightarrow> (semantic_exception e state, w')
                 | (Responds content, w') \<Rightarrow> (parse_response env content state, w'))))"

definition generate_summary :: "ValidationState \<Rightarrow> py_error + string" where
  "generate_summary state =
     (if is_valid state
      then Inr ''JSON data is valid according to both schema and semantic rules.''
      else
        let issues1 =
              (if schema_errors state \<noteq> []
               then [''Schema validation failed: '' @ join ''; '' (schema_errors state)]
               else [])
        in if truthy (semantic_errors state)
           then (case py_join ''; '' (semantic_errors state) of
                   Inl e \<Rightarrow> Inl e
                 | Inr joined \<Rightarrow>
                     Inr (''JSON data is invalid. Issues found: ''
                          @ join '' | '' (issues1 @ [''Semantic validation failed: '' @ joined])))
           else Inr (''JSON data is invalid. Issues found: '' @ join '' | '' issues1))"

definition final_assessment_node :: "ValidationState \<Rightarrow> py_error + ValidationState" where
  "final_assessment_node state0 =
     (let schema_valid = (status state0 \<in> {SCHEMA_VALID, SEMANTIC_VALID, SEMANTIC_INVALID});
          semantic_valid = (status state0 = SEMANTIC_VALID);
          state = state0\<lparr>is_valid := (schema_valid \<and> semantic_valid), status := COMPLETE\<rparr>
      in case py_len (semantic_errors state) of
           Inl e \<Rightarrow> Inl e
         | Inr n \<Rightarrow>
             (case generate_summary state of
                Inl e \<Rightarrow> Inl e
              | Inr text \<Rightarrow>
                  Inr (state\<lparr>validation_report := Some
                        \<lparr>overall_valid = is_valid state,
                         schema_validation =
                           \<lparr>passed = (length (schema_errors state) = 0),
                            errors = schema_errors state\<rparr>,
                         semantic_validation =
                           \<lparr>passed = (n = 0), errors = semantic_errors state\<rparr>,
                         summary = text\<rparr>\<rparr>)))"

section \<open>The graph and its execution\<close>

datatype node = SchemaValidationNode | SemanticValidationNode | FinalAssessmentNode | END

definition should_continue_to_semantic :: "ValidationState \<Rightarrow> node" where
  "should_continue_to_semantic state =
     (if status state = SCHEMA_VALID then SemanticValidationNode else FinalAssessmentNode)"

fun rank :: "node \<Rightarrow> nat" where
  "rank SchemaValidationNode = 3"
| "rank SemanticValidationNode = 2"
| "rank FinalAssessmentNode = 1"
| "rank END = 0"

text \<open>
  Running the compiled graph from a node: the entry point is the schema node, its
  conditional edge is \<^const>\<open>should_continue_to_semantic\<close>, the semantic node leads to the
  final assessment and the final assessment to \<^const>\<open>END\<close>. An exception that a node
  does not handle leaves the run.
\<close>

function run_from ::
    "'w env \<Rightarrow> node \<Rightarrow> ValidationState \<Rightarrow> 'w \<Rightarrow> (py_error + ValidationState) \<times> 'w" where
  "run_from env SchemaValidationNode state w =
     (let state' = schema_validation_node env state
      in run_from env (should_continue_to_semantic state') state' w)"
| "run_from env SemanticValidationNode state w =
     (case semantic_validation_node env w state of
        (state', w') \<Rightarrow> run_from env FinalAssessmentNode state' w')"
| "run_from env FinalAssessmentNode state w =
     (case final_assessment_node state of
        Inl e \<Rightarrow> (Inl e, w)
      | Inr state' \<Rightarrow> run_from env END state' w)"
| "run_from env END state w = (Inr state, w)"
  by pat_completeness auto
termination
  by (relation "measure (\<lambda>(env, n, state, w). rank n)")
     (auto simp: should_continue_to_semantic_def)

definition initial_state :: "pyval \<Rightarrow> pyval \<Rightarrow> string list \<Rightarrow> ValidationState" where
  "initial_state data sch rules =
     \<lparr>json_data = data, schema = sch, custom_rules = rules, status = PENDING,
      schema_errors = [], semantic_errors = PList [], is_valid = False,
      validation_report = None\<rparr>"

definition validate_json ::
    "'w env \<Rightarrow> 'w \<Rightarrow> pyval \<Rightarrow> pyval \<Rightarrow> string list \<Rightarrow> (py_error + report option) \<times> 'w" where
  "validate_json env w data sch rules =
     (case run_from env SchemaValidationNode (initial_state data sch rules) w of
        (Inl e, w') \<Rightarrow> (Inl e, w')
      | (Inr final_state, w') \<Rightarrow> (Inr (validation_report final_state), w'))"

section \<open>Observing a run\<close>

text \<open>
  The state in which a run leaves the schema node, and the state in which the semantic
  node would leave it from there. The second one is the state that enters the final
  assessment whenever the conditional edge takes the run through the semantic node.
\<close>

definition structural_state :: "'w env \<Rightarrow> pyval \<Rightarrow> pyval \<Rightarrow> string list \<Rightarrow> ValidationState" where
  "structural_state env data sch rules = schema_validation_node env (initial_state data sch rules)"

definition semantic_state ::
    "'w env \<Rightarrow> 'w \<Rightarrow> pyval \<Rightarrow> pyval \<Rightarrow> string list \<Rightarrow> ValidationState" where
  "semantic_state env w data sch rules =
     fst (semantic_validation_node env w (structural_state env data sch rules))"

text \<open>
  The report that the final assessment builds from a state whose \<^verbatim>\<open>semantic_errors\<close>
  is the list of strings \<open>es\<close>, as the declared type \<^verbatim>\<open>List[str]\<close> has it
  (lemma \<open>final_assessment_strs\<close> below).
\<close>

definition typed_report :: "ValidationState \<Rightarrow> string list \<Rightarrow> report" where
  "typed_report state es =
     \<lparr>overall_valid = (status state = SEMANTIC_VALID),
      schema_validation = \<lparr>passed = (schema_errors state = []), errors = schema_errors state\<rparr>,
      semantic_validation = \<lparr>passed = (es = []), errors = PList (map PStr es)\<rparr>,
      summary =
        (if status state = SEMANTIC_VALID
         then ''JSON data is valid according to both schema and semantic rules.''
         else ''JSON data is invalid. Issues found: ''
              @ join '' | ''
                  ((if schema_errors state = [] then []
                    else [''Schema validation failed: '' @ join ''; '' (schema_errors state)])
                   @ (if es = [] then []
                      else [''Semantic validation failed: '' @ join ''; '' es])))\<rparr>"

section \<open>Fixtures\<close>

text \<open>
  The sample document of the module's \<^verbatim>\<open>__main__\<close> block, \<^verbatim>\<open>create_sample_schema\<close>,
  \<^verbatim>\<open>get_invalid_schema_data\<close> of \<^verbatim>\<open>test_data.py\<close> and two of the sample rules.
\<close>

definition sample_json :: pyval where
  "sample_json =
     PDict [(''user'', PDict [(''id'', PInt 123), (''name'', PStr ''John Doe''),
                              (''email'', PStr ''john.doe@company.com''), (''age'', PInt 30),
                              (''roles'', PList [PStr ''admin'', PStr ''user''])]),
            (''metadata'', PDict [(''created_at'', PStr ''2024-01-15T10:30:00Z''),
                                  (''version'', PStr ''1.2.0'')])]"

definition get_invalid_schema_data :: pyval where
  "get_invalid_schema_data =
     PDict [(''user'', PDict [(''id'', PStr ''not_a_number''), (''name'', PStr ''''),
                              (''email'', PStr ''invalid-email''), (''age'', PInt (- 5)),
                              (''roles'', PList [])]),
            (''metadata'', PDict [(''created_at'', PStr ''invalid-date'')])]"

definition create_sample_schema :: pyval where
  "create_sample_schema =
     PDict [(''type'', PStr ''object''),
            (''properties'', PDict
               [(''user'', PDict
                   [(''type'', PStr ''object''),
                    (''properties'', PDict
                       [(''id'', PDict [(''type'', PStr ''integer''), (''minimum'', PInt 1)]),
                        (''name'', PDict [(''type'', PStr ''string''), (''minLength'', PInt 1)]),
                        (''email'', PDict [(''type'', PStr ''string''), (''format'', PStr ''email'')]),
                        (''age'', PDict [(''type'', PStr ''integer''), (''minimum'', PInt 0),
                                         (''maximum'', PInt 150)]),
                        (''roles'', PDict [(''type'', PStr ''array''),
                                           (''items'', PDict [(''type'', PStr ''string'')]),
                                           (''minItems'', PInt 1)])]),
                    (''required'', PList [PStr ''id'', PStr ''name'', PStr ''email'', PStr ''age'',
                                          PStr ''roles''])]),
                (''metadata'', PDict
                   [(''type'', PStr ''object''),
                    (''properties'', PDict
                       [(''created_at'', PDict [(''type'', PStr ''string''),
                                                (''format'', PStr ''date-time'')]),
                        (''version'', PDict [(''type'', PStr ''string'')])]),
                    (''required'', PList [PStr ''created_at'', PStr ''version''])])]),
            (''required'', PList [PStr ''user'', PStr ''metadata''])]"

definition two_rules :: "string list" where
  "two_rules = [''Version should follow semantic versioning format (e.g., 1.0.0)'',
                ''Created timestamp should not be in the future'']"

text \<open>
  Fixed-response stand-ins for the collaborators: the schema check, the chat model and
  the decoder each give one outcome whatever they are asked, and every document is
  serialised as \<^verbatim>\<open>{}\<close>. The world is the number of calls the chat model has received.
\<close>

definition fake_env :: "check_outcome \<Rightarrow> llm_outcome \<Rightarrow> loads_outcome \<Rightarrow> nat env" where
  "fake_env c l j =
     \<lparr>jsonschema_validate = (\<lambda>instance sch. c),
      llm_invoke = (\<lambda>calls msgs. (l, Suc calls)),
      json_loads = (\<lambda>text. j),
      json_dumps = (\<lambda>v. Dumped ''{}'')\<rparr>"

text \<open>
  The requests that these stand-ins lead to for the sample rules and for no rules.
\<close>

definition sample_request :: "string list \<Rightarrow> message list" where
  "sample_request rules =
     [SystemMessage (system_prompt (join ''\<newline>'' rules)),
      HumanMessage (''JSON Data to validate:\<newline>{}\<newline>\<newline>Custom Rules:\<newline>''
                    @ join ''\<newline>'' (map (\<lambda>rule. ''- '' @ rule) rules)
                    @ ''\<newline>\<newline>Please validate this JSON against the rules and provide your assessment.'')]"

text \<open>
  The environments of the runs quoted below, each with the report or state it leads to:
  a judge that accepts, a schema check that rejects the document, a schema check that
  cannot read the schema, a judge that answers in prose, a judge that cannot be reached,
  a judge that rejects without giving errors, one that gives \<^verbatim>\<open>null\<close> for them, and
  one whose verdict is a string.
\<close>

definition passing_env :: "nat env" where
  \<open>passing_env =
     fake_env Conforms (Responds ''{"is_valid": true, "errors": []}'')
       (Loaded (PDict [(''is_valid'', PBool True), (''errors'', PList [])]))\<close>

definition passing_report :: report where
  "passing_report =
     \<lparr>overall_valid = True,
      schema_validation = \<lparr>passed = True, errors = []\<rparr>,
      semantic_validation = \<lparr>passed = True, errors = PList []\<rparr>,
      summary = ''JSON data is valid according to both schema and semantic rules.''\<rparr>"

definition schema_failing_env :: "nat env" where
  \<open>schema_failing_env =
     fake_env (RaisesValidationError ''-5 is less than the minimum of 0'')
       (Responds ''{"is_valid": true, "errors": []}'')
       (Loaded (PDict [(''is_valid'', PBool True), (''errors'', PList [])]))\<close>

definition schema_failing_report :: report where
  "schema_failing_report =
     \<lparr>overall_valid = False,
      schema_validation = \<lparr>passed = False, errors = [''-5 is less than the minimum of 0'']\<rparr>,
      semantic_validation = \<lparr>passed = True, errors = PList []\<rparr>,
      summary = ''JSON data is invalid. Issues found: Schema validation failed: -5 is less than the minimum of 0''\<rparr>"

definition schema_fault_env :: "nat env" where
  "schema_fault_env =
     fake_env (RaisesException ''5 is not valid under any of the given schemas'')
       (Responds ''{}'') (Loaded (PDict []))"

definition chatty_env :: "nat env" where
  "chatty_env = fake_env Conforms (Responds ''The data looks fine to me.'') RaisesJSONDecodeError"

definition chatty_report :: report where
  "chatty_report =
     \<lparr>overall_valid = False,
      schema_validation = \<lparr>passed = True, errors = []\<rparr>,
      semantic_validation =
        \<lparr>passed = False, errors = PList [PStr ''Failed to parse LLM validation response'']\<rparr>,
      summary = ''JSON data is invalid. Issues found: Semantic validation failed: Failed to parse LLM validation response''\<rparr>"

definition unreachable_env :: "nat env" where
  "unreachable_env = fake_env Conforms (LlmRaises ''Connection error.'') RaisesJSONDecodeError"

definition unreachable_report :: report where
  "unreachable_report =
     \<lparr>overall_valid = False,
      schema_validation = \<lparr>passed = True, errors = []\<rparr>,
      semantic_validation =
        \<lparr>passed = False,
         errors = PList [PStr ''Semantic validation error: Connection error.'']\<rparr>,
      summary = ''JSON data is invalid. Issues found: Semantic validation failed: Semantic validation error: Connection error.''\<rparr>"

definition rejecting_env :: "nat env" where
  \<open>rejecting_env =
     fake_env Conforms (Responds ''{"is_valid": false}'')
       (Loaded (PDict [(''is_valid'', PBool False)]))\<close>

definition rejecting_report :: report where
  "rejecting_report =
     \<lparr>overall_valid = False,
      schema_validation = \<lparr>passed = True, errors = []\<rparr>,
      semantic_validation =
        \<lparr>passed = False, errors = PList [PStr ''Semantic validation failed'']\<rparr>,
      summary = ''JSON data is invalid. Issues found: Semantic validation failed: Semantic validation failed''\<rparr>"

definition null_errors_env :: "nat env" where
  \<open>null_errors_env =
     fake_env Conforms (Responds ''{"is_valid": false, "errors": null}'')
       (Loaded (PDict [(''is_valid'', PBool False), (''errors'', PNone)]))\<close>

definition string_verdict_env :: "nat env" where
  \<open>string_verdict_env =
     fake_env Conforms (Responds ''{"is_valid": "no"}'')
       (Loaded (PDict [(''is_valid'', PStr ''no'')]))\<close>

text \<open>
  A state as the final assessment could receive it, with errors of both kinds.
\<close>

definition both_failed_state :: ValidationState where
  "both_failed_state =
     (initial_state get_invalid_schema_data create_sample_schema two_rules)
       \<lparr>status := SCHEMA_INVALID,
        schema_errors := [''-5 is less than the minimum of 0''],
        semantic_errors := PList (map PStr [''Version is not semantic'', ''Timestamp is in the future''])\<rparr>"

section \<open>Lemmas on the run\<close>

lemmas run_defs = validate_json_def fake_env_def initial_state_def schema_validation_node_def
  messages_def human_prompt_def
  should_continue_to_semantic_def final_assessment_node_def generate_summary_def
  semantic_validation_node_def parse_response_def semantic_exception_def apostrophe_def

lemma structural_state_eq:
  "structural_state env data sch rules =
     (initial_state data sch rules)
       \<lparr>status := (if jsonschema_validate env data sch = Conforms then SCHEMA_VALID else SCHEMA_INVALID),
        schema_errors :=
          (case jsonschema_validate env data sch of
             Conforms \<Rightarrow> []
           | RaisesValidationError e \<Rightarrow> [e]
           | RaisesException e \<Rightarrow> [''Schema validation error: '' @ e])\<rparr>"
  by (simp add: structural_state_def schema_validation_node_def initial_state_def
           split: check_outcome.splits)

lemma structural_state_simps:
  "json_data (structural_state env data sch rules) = data"
  "custom_rules (structural_state env data sch rules) = rules"
  "semantic_errors (structural_state env data sch rules) = PList []"
  "(status (structural_state env data sch rules) = SCHEMA_VALID)
     = (jsonschema_validate env data sch = Conforms)"
  "(status (structural_state env data sch rules) = SCHEMA_INVALID)
     = (jsonschema_validate env data sch \<noteq> Conforms)"
  "status (structural_state env data sch rules) \<noteq> SEMANTIC_VALID"
  "status (structural_state env data sch rules) \<noteq> SEMANTIC_INVALID"
  "(schema_errors (structural_state env data sch rules) = [])
     = (jsonschema_validate env data sch = Conforms)"
  by (simp_all add: structural_state_eq initial_state_def split: check_outcome.splits)

lemma validate_json_unfold:
  "validate_json env w data sch rules =
     (let s1 = structural_state env data sch rules in
      if status s1 = SCHEMA_VALID
      then (case semantic_validation_node env w s1 of
              (s2, w') \<Rightarrow>
                (case final_assessment_node s2 of
                   Inl e \<Rightarrow> (Inl e, w')
                 | Inr s3 \<Rightarrow> (Inr (validation_report s3), w')))
      else (case final_assessment_node s1 of
              Inl e \<Rightarrow> (Inl e, w)
            | Inr s3 \<Rightarrow> (Inr (validation_report s3), w)))"
  by (simp add: validate_json_def structural_state_def should_continue_to_semantic_def Let_def
           split: prod.splits sum.splits)

lemma join_items_strs: "join_items i (map PStr es) = Inr es"
  by (induction es arbitrary: i) simp_all

lemma py_join_strs: "py_join sep (PList (map PStr es)) = Inr (join sep es)"
  by (simp add: join_items_strs)

lemma final_assessment_strs:
  assumes "semantic_errors state = PList (map PStr es)"
  shows "final_assessment_node state =
           Inr (state\<lparr>is_valid := (status state = SEMANTIC_VALID), status := COMPLETE,
                      validation_report := Some (typed_report state es)\<rparr>)"
  using assms
  by (cases "es = []")
     (auto simp: final_assessment_node_def generate_summary_def typed_report_def Let_def
                 py_join_strs join_items_strs)

lemma validate_json_schema_failure:
  assumes "jsonschema_validate env data sch \<noteq> Conforms"
  shows "validate_json env w data sch rules =
           (Inr (Some (typed_report (structural_state env data sch rules) [])), w)"
proof -
  have "semantic_errors (structural_state env data sch rules) = PList (map PStr [])"
    by (simp add: structural_state_simps)
  from final_assessment_strs [OF this] assms show ?thesis
    by (simp add: validate_json_unfold structural_state_simps)
qed

lemma validate_json_conforms:
  assumes "jsonschema_validate env data sch = Conforms"
  shows "validate_json env w data sch rules =
           (case final_assessment_node (semantic_state env w data sch rules) of
              Inl e \<Rightarrow> (Inl e, snd (semantic_validation_node env w (structural_state env data sch rules)))
            | Inr s3 \<Rightarrow> (Inr (validation_report s3),
                         snd (semantic_validation_node env w (structural_state env data sch rules))))"
  using assms
  by (simp add: validate_json_unfold structural_state_simps semantic_state_def case_prod_beta Let_def)

lemma semantic_node_conforms:
  assumes "jsonschema_validate env data sch = Conforms"
  shows "semantic_validation_node env w (structural_state env data sch rules) =
           (case messages env data rules of
              Inl e \<Rightarrow> (semantic_exception e (structural_state env data sch rules), w)
            | Inr msgs \<Rightarrow>
                (case llm_invoke env w msgs of
                   (LlmRaises e, w') \<Rightarrow>
                     (semantic_exception e (structural_state env data sch rules), w')
                 | (Responds content, w') \<Rightarrow>
                     (parse_response env content (structural_state env data sch rules), w')))"
proof -
  have "status (structural_state env data sch rules) \<noteq> SCHEMA_INVALID"
    using assms by (simp add: structural_state_simps)
  then show ?thesis
    by (simp add: semantic_validation_node_def structural_state_simps)
qed

lemma validate_json_conforms_strs:
  assumes "jsonschema_validate env data sch = Conforms"
      and "semantic_validation_node env w (structural_state env data sch rules) = (s2, w')"
      and "semantic_errors s2 = PList (map PStr es)"
  shows "validate_json env w data sch rules = (Inr (Some (typed_report s2 es)), w')"
  using assms(1,2) final_assessment_strs [OF assms(3)]
  by (simp add: validate_json_conforms semantic_state_def)

lemma schema_errors_semantic_node:
  "schema_errors (fst (semantic_validation_node env w state)) = schema_errors state"
  by (simp add: semantic_validation_node_def parse_response_def semantic_exception_def
           split: prod.splits llm_outcome.splits loads_outcome.splits sum.splits)

lemma final_assessment_schema_verdict:
  assumes "final_assessment_node state = Inr state'"
  shows "\<exists>rep. validation_report state' = Some rep \<and>
               schema_validation rep =
                 \<lparr>passed = (schema_errors state = []), errors = schema_errors state\<rparr>"
  using assms
  by (auto simp: final_assessment_node_def Let_def split: sum.splits)

lemma semantic_node_fst_cong:
  assumes "\<forall>m. fst (llm_invoke env w1 m) = fst (llm_invoke env w2 m)"
  shows "fst (semantic_validation_node env w1 state) = fst (semantic_validation_node env w2 state)"
proof (cases "messages env (json_data state) (custom_rules state)")
  case (Inl e)
  then show ?thesis
    by (simp add: semantic_validation_node_def)
next
  case (Inr msgs)
  from assms have "fst (llm_invoke env w1 msgs) = fst (llm_invoke env w2 msgs)"
    by simp
  with Inr show ?thesis
    by (auto simp: semantic_validation_node_def split: prod.splits llm_outcome.splits)
qed

lemma validate_json_fst_cong:
  assumes "\<forall>m. fst (llm_invoke env w1 m) = fst (llm_invoke env w2 m)"
  shows "fst (validate_json env w1 data sch rules) = fst (validate_json env w2 data sch rules)"
proof -
  have "fst (semantic_validation_node env w1 (structural_state env data sch rules))
        = fst (semantic_validation_node env w2 (structural_state env data sch rules))"
    using assms by (rule semantic_node_fst_cong)
  then show ?thesis
    by (simp add: validate_json_unfold Let_def case_prod_beta split: sum.splits)
qed

text \<open>
  The request cannot be built when \<^verbatim>\<open>json.dumps\<close> raises. The outer handler of the
  semantic node then reports the exception and the judge is not called: the world is the
  one the run started in.
\<close>

lemma unserialisable_document_report:
  assumes "jsonschema_validate env data sch = Conforms"
      and "json_dumps env data = DumpsRaises e"
  shows "validate_json env w data sch rules =
           (Inr (Some \<lparr>overall_valid = False,
                        schema_validation = \<lparr>passed = True, errors = []\<rparr>,
                        semantic_validation =
                          \<lparr>passed = False,
                           errors = PList [PStr (''Semantic validation error: '' @ e)]\<rparr>,
                        summary = ''JSON data is invalid. Issues found: Semantic validation failed: Semantic validation error: '' @ e\<rparr>),
            w)"
proof -
  let ?s1 = "structural_state env data sch rules"
  let ?s2 = "semantic_exception e ?s1"
  have node: "semantic_validation_node env w ?s1 = (?s2, w)"
    using assms by (simp add: semantic_node_conforms messages_def human_prompt_def)
  have errs: "semantic_errors ?s2 = PList (map PStr [''Semantic validation error: '' @ e])"
    by (simp add: semantic_exception_def)
  have "typed_report ?s2 [''Semantic validation error: '' @ e] =
          \<lparr>overall_valid = False,
           schema_validation = \<lparr>passed = True, errors = []\<rparr>,
           semantic_validation =
             \<lparr>passed = False,
              errors = PList [PStr (''Semantic validation error: '' @ e)]\<rparr>,
           summary = ''JSON data is invalid. Issues found: Semantic validation failed: Semantic validation error: '' @ e\<rparr>"
    using assms(1)
    by (simp add: typed_report_def semantic_exception_def structural_state_eq initial_state_def)
  with validate_json_conforms_strs [OF assms(1) node errs] show ?thesis
    by simp
qed

section \<open>The claims\<close>

text \<open>
  C1. The claim: a document that fails the schema check is reported with
  \<open>structural.passed = false\<close>, \<open>overallValid = false\<close> and the semantic error list
  \<open>["Skipped due to schema validation failure"]\<close>. The first two hold. The third does
  not: the conditional edge sends a run whose status is not \<^const>\<open>SCHEMA_VALID\<close> straight
  to the final assessment, so the branch of the semantic node that stores the sentinel is
  never executed and the list stays as \<^const>\<open>initial_state\<close> set it, empty. The run
  below is \<^verbatim>\<open>get_invalid_schema_data\<close> against the sample schema, with a schema check
  that raises a ValidationError: the report has no semantic errors and
  \<open>semantic_validation.passed\<close> is true.
\<close>

theorem schema_failure_semantic_errors_empty:
  "validate_json (fake_env (RaisesValidationError ''-5 is less than the minimum of 0'')
                           (Responds ''{}'') (Loaded (PDict [])))
                 0 get_invalid_schema_data create_sample_schema two_rules
   = (Inr (Some \<lparr>overall_valid = False,
                  schema_validation =
                    \<lparr>passed = False, errors = [''-5 is less than the minimum of 0'']\<rparr>,
                  semantic_validation = \<lparr>passed = True, errors = PList []\<rparr>,
                  summary = ''JSON data is invalid. Issues found: Schema validation failed: -5 is less than the minimum of 0''\<rparr>),
      0)"
  by (simp add: run_defs)

text \<open>
  C2. Whenever \<^const>\<open>validate_json\<close> returns a report, its \<open>overall_valid\<close> is true
  exactly if the schema node left the status \<^const>\<open>SCHEMA_VALID\<close> and the semantic node
  left it \<^const>\<open>SEMANTIC_VALID\<close>. When both hold a report is returned and it is valid;
  when the schema check fails a report is returned and it is invalid.
\<close>

theorem overall_valid_iff_both_phases_passed:
  "(\<forall>r. fst (validate_json env w data sch rules) = Inr r \<longrightarrow>
        (\<exists>rep. r = Some rep \<and>
               overall_valid rep =
                 (status (structural_state env data sch rules) = SCHEMA_VALID \<and>
                  status (semantic_state env w data sch rules) = SEMANTIC_VALID)))
   \<and> (status (structural_state env data sch rules) = SCHEMA_VALID \<and>
        status (semantic_state env w data sch rules) = SEMANTIC_VALID \<longrightarrow>
        (\<exists>rep. fst (validate_json env w data sch rules) = Inr (Some rep) \<and> overall_valid rep))
   \<and> (status (structural_state env data sch rules) \<noteq> SCHEMA_VALID \<longrightarrow>
        (\<exists>rep. fst (validate_json env w data sch rules) = Inr (Some rep) \<and> \<not> overall_valid rep))"
proof (intro conjI allI impI)
  fix r
  assume run: "fst (validate_json env w data sch rules) = Inr r"
  show "\<exists>rep. r = Some rep \<and>
          overall_valid rep =
            (status (structural_state env data sch rules) = SCHEMA_VALID \<and>
             status (semantic_state env w data sch rules) = SEMANTIC_VALID)"
  proof (cases "jsonschema_validate env data sch = Conforms")
    case True
    with run show ?thesis
      by (auto simp: validate_json_conforms final_assessment_node_def Let_def
                     structural_state_simps split: sum.splits)
  next
    case False
    from validate_json_schema_failure [OF False, of w rules] run
    have "r = Some (typed_report (structural_state env data sch rules) [])"
      by simp
    with False show ?thesis
      by (simp add: typed_report_def structural_state_simps)
  qed
next
  assume both: "status (structural_state env data sch rules) = SCHEMA_VALID \<and>
                status (semantic_state env w data sch rules) = SEMANTIC_VALID"
  then have conf: "jsonschema_validate env data sch = Conforms"
    by (simp add: structural_state_simps)
  have "semantic_errors (semantic_state env w data sch rules) = PList (map PStr [])"
    using both conf
    by (auto simp: semantic_state_def semantic_node_conforms parse_response_def
                   semantic_exception_def
             split: prod.splits llm_outcome.splits loads_outcome.splits sum.splits if_splits)
  from final_assessment_strs [OF this] both conf
  show "\<exists>rep. fst (validate_json env w data sch rules) = Inr (Some rep) \<and> overall_valid rep"
    by (simp add: validate_json_conforms typed_report_def)
next
  assume "status (structural_state env data sch rules) \<noteq> SCHEMA_VALID"
  then have "jsonschema_validate env data sch \<noteq> Conforms"
    by (simp add: structural_state_simps)
  then show "\<exists>rep. fst (validate_json env w data sch rules) = Inr (Some rep) \<and> \<not> overall_valid rep"
    by (simp add: validate_json_schema_failure typed_report_def structural_state_simps)
qed

theorem overall_valid_iff_both_phases_passed_witness:
  "status (structural_state passing_env sample_json create_sample_schema two_rules) = SCHEMA_VALID
   \<and> status (semantic_state passing_env 0 sample_json create_sample_schema two_rules) = SEMANTIC_VALID
   \<and> fst (validate_json passing_env 0 sample_json create_sample_schema two_rules)
       = Inr (Some passing_report)
   \<and> overall_valid passing_report
   \<and> status (structural_state schema_failing_env get_invalid_schema_data create_sample_schema two_rules)
       = SCHEMA_INVALID
   \<and> fst (validate_json schema_failing_env 0 get_invalid_schema_data create_sample_schema two_rules)
       = Inr (Some schema_failing_report)
   \<and> overall_valid schema_failing_report = False"
  using overall_valid_iff_both_phases_passed
          [of passing_env 0 sample_json create_sample_schema two_rules]
        overall_valid_iff_both_phases_passed
          [of schema_failing_env 0 get_invalid_schema_data create_sample_schema two_rules]
  by (simp add: run_defs structural_state_def semantic_state_def passing_env_def
        passing_report_def schema_failing_env_def schema_failing_report_def)

text \<open>
  C3, as the claim has it, fails on the message. The run: the sample document conforms,
  the judge answers in prose, \<^verbatim>\<open>json.loads\<close> raises JSONDecodeError. The semantic
  error list of the report is not \<open>["Failed to parse semantic validation response"]\<close>.
\<close>

theorem undecodable_reply_counterexample:
  "jsonschema_validate chatty_env sample_json create_sample_schema = Conforms
   \<and> messages chatty_env sample_json two_rules = Inr (sample_request two_rules)
   \<and> llm_invoke chatty_env 0 (sample_request two_rules)
       = (Responds ''The data looks fine to me.'', 1)
   \<and> json_loads chatty_env ''The data looks fine to me.'' = RaisesJSONDecodeError
   \<and> validate_json chatty_env 0 sample_json create_sample_schema two_rules
       = (Inr (Some chatty_report), 1)
   \<and> errors (semantic_validation chatty_report)
       \<noteq> PList [PStr ''Failed to parse semantic validation response'']"
  by (simp add: run_defs chatty_env_def chatty_report_def messages_def human_prompt_def
        sample_request_def two_rules_def)

text \<open>
  C3, as amended. For a document that conforms to the schema, if the judge, called with
  the request built from the document and the rules, gives a reply whose text is not
  decodable as JSON (\<^verbatim>\<open>json.loads\<close> raises JSONDecodeError), the report has
  \<open>semantic_validation.passed = false\<close>, the semantic error list
  \<open>["Failed to parse LLM validation response"]\<close> and \<open>overall_valid = false\<close>.
\<close>

theorem undecodable_reply_report:
  assumes "jsonschema_validate env data sch = Conforms"
      and "messages env data rules = Inr msgs"
      and "llm_invoke env w msgs = (Responds content, w')"
      and "json_loads env content = RaisesJSONDecodeError"
  shows "validate_json env w data sch rules =
           (Inr (Some \<lparr>overall_valid = False,
                        schema_validation = \<lparr>passed = True, errors = []\<rparr>,
                        semantic_validation =
                          \<lparr>passed = False,
                           errors = PList [PStr ''Failed to parse LLM validation response'']\<rparr>,
                        summary = ''JSON data is invalid. Issues found: Semantic validation failed: Failed to parse LLM validation response''\<rparr>),
            w')"
proof -
  let ?s1 = "structural_state env data sch rules"
  let ?s2 = "?s1\<lparr>status := SEMANTIC_INVALID,
                   semantic_errors := PList [PStr ''Failed to parse LLM validation response'']\<rparr>"
  have node: "semantic_validation_node env w ?s1 = (?s2, w')"
    using assms by (simp add: semantic_node_conforms parse_response_def)
  have errs: "semantic_errors ?s2 = PList (map PStr [''Failed to parse LLM validation response''])"
    by simp
  have "typed_report ?s2 [''Failed to parse LLM validation response''] =
          \<lparr>overall_valid = False,
           schema_validation = \<lparr>passed = True, errors = []\<rparr>,
           semantic_validation =
             \<lparr>passed = False,
              errors = PList [PStr ''Failed to parse LLM validation response'']\<rparr>,
           summary = ''JSON data is invalid. Issues found: Semantic validation failed: Failed to parse LLM validation response''\<rparr>"
    using assms(1) by (simp add: typed_report_def structural_state_eq initial_state_def)
  with validate_json_conforms_strs [OF assms(1) node errs] show ?thesis
    by simp
qed

theorem undecodable_reply_report_witness:
  "jsonschema_validate chatty_env sample_json create_sample_schema = Conforms
   \<and> messages chatty_env sample_json two_rules = Inr (sample_request two_rules)
   \<and> llm_invoke chatty_env 0 (sample_request two_rules)
       = (Responds ''The data looks fine to me.'', 1)
   \<and> json_loads chatty_env ''The data looks fine to me.'' = RaisesJSONDecodeError
   \<and> validate_json chatty_env 0 sample_json create_sample_schema two_rules
       = (Inr (Some chatty_report), 1)"
  using undecodable_reply_report
          [of chatty_env sample_json create_sample_schema two_rules "sample_request two_rules" 0
              "''The data looks fine to me.''" 1]
  by (simp add: chatty_env_def chatty_report_def fake_env_def messages_def human_prompt_def
        sample_request_def two_rules_def)

text \<open>
  C4. For a document that conforms to the schema, if the call of the judge, made with the
  request built from the document and the rules, raises, the exception becomes data: the report is returned with \<open>semantic_validation.passed = false\<close>,
  the single semantic error \<open>"Semantic validation error: "\<close> followed by the cause, and
  \<open>overall_valid = false\<close>. The world after the run is the world right after that one
  call: the judge is not called again.
\<close>

theorem judge_failure_report:
  assumes "jsonschema_validate env data sch = Conforms"
      and "messages env data rules = Inr msgs"
      and "llm_invoke env w msgs = (LlmRaises cause, w')"
  shows "validate_json env w data sch rules =
           (Inr (Some \<lparr>overall_valid = False,
                        schema_validation = \<lparr>passed = True, errors = []\<rparr>,
                        semantic_validation =
                          \<lparr>passed = False,
                           errors = PList [PStr (''Semantic validation error: '' @ cause)]\<rparr>,
                        summary = ''JSON data is invalid. Issues found: Semantic validation failed: Semantic validation error: '' @ cause\<rparr>),
            w')"
proof -
  let ?s1 = "structural_state env data sch rules"
  let ?s2 = "semantic_exception cause ?s1"
  have node: "semantic_validation_node env w ?s1 = (?s2, w')"
    using assms by (simp add: semantic_node_conforms)
  have errs: "semantic_errors ?s2 = PList (map PStr [''Semantic validation error: '' @ cause])"
    by (simp add: semantic_exception_def)
  have "typed_report ?s2 [''Semantic validation error: '' @ cause] =
          \<lparr>overall_valid = False,
           schema_validation = \<lparr>passed = True, errors = []\<rparr>,
           semantic_validation =
             \<lparr>passed = False,
              errors = PList [PStr (''Semantic validation error: '' @ cause)]\<rparr>,
           summary = ''JSON data is invalid. Issues found: Semantic validation failed: Semantic validation error: '' @ cause\<rparr>"
    using assms(1)
    by (simp add: typed_report_def semantic_exception_def structural_state_eq initial_state_def)
  with validate_json_conforms_strs [OF assms(1) node errs] show ?thesis
    by simp
qed

theorem judge_failure_report_witness:
  "jsonschema_validate unreachable_env sample_json create_sample_schema = Conforms
   \<and> messages unreachable_env sample_json two_rules = Inr (sample_request two_rules)
   \<and> llm_invoke unreachable_env 0 (sample_request two_rules)
       = (LlmRaises ''Connection error.'', 1)
   \<and> validate_json unreachable_env 0 sample_json create_sample_schema two_rules
       = (Inr (Some unreachable_report), 1)"
  using judge_failure_report
          [of unreachable_env sample_json create_sample_schema two_rules "sample_request two_rules" 0
              "''Connection error.''" 1]
  by (simp add: unreachable_env_def unreachable_report_def fake_env_def messages_def
        human_prompt_def sample_request_def two_rules_def)

text \<open>
  C5. The schema node, on every state: when the check succeeds the status is
  \<^const>\<open>SCHEMA_VALID\<close> and the error list is empty; when it raises a ValidationError the
  status is \<^const>\<open>SCHEMA_INVALID\<close> and the list holds its one message; when it raises
  any other exception the status is \<^const>\<open>SCHEMA_INVALID\<close> and the list holds the one
  message \<open>"Schema validation error: "\<close> followed by the cause. No outcome of the check
  leaves the node as an exception. In every report that \<^const>\<open>validate_json\<close> returns,
  \<open>schema_validation.passed\<close> says whether the check succeeded and the errors are those
  of the node.
\<close>

theorem structural_validator_outcomes:
  "(jsonschema_validate env (json_data state) (schema state) = Conforms \<longrightarrow>
      status (schema_validation_node env state) = SCHEMA_VALID \<and>
      schema_errors (schema_validation_node env state) = [])
   \<and> (\<forall>m. jsonschema_validate env (json_data state) (schema state) = RaisesValidationError m \<longrightarrow>
          status (schema_validation_node env state) = SCHEMA_INVALID \<and>
          schema_errors (schema_validation_node env state) = [m])
   \<and> (\<forall>c. jsonschema_validate env (json_data state) (schema state) = RaisesException c \<longrightarrow>
          status (schema_validation_node env state) = SCHEMA_INVALID \<and>
          schema_errors (schema_validation_node env state) = [''Schema validation error: '' @ c])
   \<and> (\<forall>r. fst (validate_json env w data sch rules) = Inr r \<longrightarrow>
          (\<exists>rep. r = Some rep \<and>
                 schema_validation rep =
                   \<lparr>passed = (jsonschema_validate env data sch = Conforms),
                    errors = schema_errors (structural_state env data sch rules)\<rparr>))"
proof (intro conjI allI impI)
  fix r
  assume run: "fst (validate_json env w data sch rules) = Inr r"
  show "\<exists>rep. r = Some rep \<and>
          schema_validation rep =
            \<lparr>passed = (jsonschema_validate env data sch = Conforms),
             errors = schema_errors (structural_state env data sch rules)\<rparr>"
  proof (cases "jsonschema_validate env data sch = Conforms")
    case True
    from run True obtain s3 where
      fin: "final_assessment_node (semantic_state env w data sch rules) = Inr s3"
      and r: "r = validation_report s3"
      by (auto simp: validate_json_conforms split: sum.splits)
    from final_assessment_schema_verdict [OF fin] r True show ?thesis
      by (auto simp: semantic_state_def schema_errors_semantic_node structural_state_simps)
  next
    case False
    from validate_json_schema_failure [OF False, of w rules] run
    have "r = Some (typed_report (structural_state env data sch rules) [])"
      by simp
    with False show ?thesis
      by (simp add: typed_report_def structural_state_simps)
  qed
qed (simp_all add: schema_validation_node_def)

theorem structural_validator_outcomes_witness:
  "jsonschema_validate passing_env sample_json create_sample_schema = Conforms
   \<and> status (structural_state passing_env sample_json create_sample_schema two_rules) = SCHEMA_VALID
   \<and> schema_errors (structural_state passing_env sample_json create_sample_schema two_rules) = []
   \<and> jsonschema_validate schema_failing_env get_invalid_schema_data create_sample_schema
       = RaisesValidationError ''-5 is less than the minimum of 0''
   \<and> status (structural_state schema_failing_env get_invalid_schema_data create_sample_schema two_rules)
       = SCHEMA_INVALID
   \<and> schema_errors (structural_state schema_failing_env get_invalid_schema_data create_sample_schema two_rules)
       = [''-5 is less than the minimum of 0'']
   \<and> jsonschema_validate schema_fault_env sample_json (PInt 5)
       = RaisesException ''5 is not valid under any of the given schemas''
   \<and> status (structural_state schema_fault_env sample_json (PInt 5) two_rules) = SCHEMA_INVALID
   \<and> schema_errors (structural_state schema_fault_env sample_json (PInt 5) two_rules)
       = [''Schema validation error: 5 is not valid under any of the given schemas'']
   \<and> fst (validate_json schema_failing_env 0 get_invalid_schema_data create_sample_schema two_rules)
       = Inr (Some schema_failing_report)
   \<and> schema_validation schema_failing_report
       = \<lparr>passed = False, errors = [''-5 is less than the minimum of 0'']\<rparr>"
  using structural_validator_outcomes
          [of passing_env "initial_state sample_json create_sample_schema two_rules"
              0 sample_json create_sample_schema two_rules]
        structural_validator_outcomes
          [of schema_failing_env "initial_state get_invalid_schema_data create_sample_schema two_rules"
              0 get_invalid_schema_data create_sample_schema two_rules]
        structural_validator_outcomes
          [of schema_fault_env "initial_state sample_json (PInt 5) two_rules"
              0 sample_json "PInt 5" two_rules]
  by (simp add: run_defs structural_state_def passing_env_def schema_failing_env_def
        schema_fault_env_def schema_failing_report_def)

text \<open>
  C6. The claim: every run ends with a report and no exception reaches the caller. The
  two nodes it names do turn every outcome of their collaborators into data, and the run
  of the graph is total (\<^const>\<open>run_from\<close> is defined with its termination proof). The
  final assessment, though, applies \<^verbatim>\<open>len\<close> and \<^verbatim>\<open>join\<close> to the value that the
  semantic node copied from the judge's reply. The run below: the sample document
  conforms and the judge answers \<^verbatim>\<open>{"is_valid": false, "errors": null}\<close>. The call of
  \<^const>\<open>validate_json\<close> raises a TypeError and returns no report.
\<close>

theorem null_errors_reply_raises:
  "validate_json null_errors_env 0 sample_json create_sample_schema two_rules
   = (Inl (TypeError (''object of type '' @ apostrophe @ ''NoneType'' @ apostrophe
                      @ '' has no len()'')), 1)"
  by (simp add: run_defs null_errors_env_def)

text \<open>
  C7. With a judge whose reply does not depend on the world it is called in, a second
  call of \<^const>\<open>validate_json\<close> on the same document, schema and rules, made in the world
  the first call left, gives the same result as the first.
\<close>

theorem validate_twice_same_report:
  assumes "\<forall>w1 w2 m. fst (llm_invoke env w1 m) = fst (llm_invoke env w2 m)"
  shows "fst (validate_json env (snd (validate_json env w data sch rules)) data sch rules)
         = fst (validate_json env w data sch rules)"
  using assms by (intro validate_json_fst_cong) simp

theorem validate_twice_same_report_witness:
  "(\<forall>w1 w2 m. fst (llm_invoke passing_env w1 m) = fst (llm_invoke passing_env w2 m))
   \<and> validate_json passing_env 0 sample_json create_sample_schema two_rules
       = (Inr (Some passing_report), 1)
   \<and> validate_json passing_env 1 sample_json create_sample_schema two_rules
       = (Inr (Some passing_report), 2)"
  using validate_twice_same_report [of passing_env 0 sample_json create_sample_schema two_rules]
  by (simp add: run_defs passing_env_def passing_report_def)

text \<open>
  C8, as the claim has it, fails: there is no case for an empty rule list in the semantic
  node. The run: the sample document conforms, the rule list is empty and the judge
  answers \<^verbatim>\<open>{"is_valid": false}\<close>. The report has \<open>semantic_validation.passed = false\<close>
  and one semantic error.
\<close>

theorem empty_rules_counterexample:
  "jsonschema_validate rejecting_env sample_json create_sample_schema = Conforms
   \<and> validate_json rejecting_env 0 sample_json create_sample_schema []
       = (Inr (Some rejecting_report), 1)
   \<and> passed (semantic_validation rejecting_report) = False
   \<and> errors (semantic_validation rejecting_report) = PList [PStr ''Semantic validation failed'']"
  by (simp add: run_defs rejecting_env_def rejecting_report_def)

text \<open>
  C8, as amended. For a document that conforms to the schema and an empty rule list,
  whenever the request can be built (\<^verbatim>\<open>json.dumps\<close> of the document does not raise), the
  judge is called once, with the request that lists no rules: the world after the run is
  the world right after that call. The semantic phase then passes, with
  \<open>semantic_validation.passed = true\<close> and no semantic errors, when the reply decodes to an
  object whose \<^verbatim>\<open>is_valid\<close> is truthy.
\<close>

theorem empty_rules_follow_the_judge:
  assumes "jsonschema_validate env data sch = Conforms"
      and "messages env data [] = Inr msgs"
  shows "snd (validate_json env w data sch []) = snd (llm_invoke env w msgs)
         \<and> (\<forall>content w' kvs.
               llm_invoke env w msgs = (Responds content, w') \<and>
               json_loads env content = Loaded (PDict kvs) \<and>
               truthy (case map_of kvs ''is_valid'' of None \<Rightarrow> PBool False | Some v \<Rightarrow> v) \<longrightarrow>
               validate_json env w data sch [] =
                 (Inr (Some \<lparr>overall_valid = True,
                              schema_validation = \<lparr>passed = True, errors = []\<rparr>,
                              semantic_validation = \<lparr>passed = True, errors = PList []\<rparr>,
                              summary = ''JSON data is valid according to both schema and semantic rules.''\<rparr>),
                  w'))"
proof (intro conjI allI impI)
  let ?s1 = "structural_state env data sch []"
  have "snd (validate_json env w data sch []) = snd (semantic_validation_node env w ?s1)"
    using assms(1) by (simp add: validate_json_conforms split: sum.splits)
  also have "\<dots> = snd (llm_invoke env w msgs)"
    using assms
    by (simp add: semantic_node_conforms split: prod.splits llm_outcome.splits)
  finally show "snd (validate_json env w data sch []) = snd (llm_invoke env w msgs)" .
next
  fix content w' kvs
  assume reply: "llm_invoke env w msgs = (Responds content, w') \<and>
                 json_loads env content = Loaded (PDict kvs) \<and>
                 truthy (case map_of kvs ''is_valid'' of None \<Rightarrow> PBool False | Some v \<Rightarrow> v)"
  let ?s1 = "structural_state env data sch []"
  let ?s2 = "?s1\<lparr>status := SEMANTIC_VALID, semantic_errors := PList []\<rparr>"
  have node: "semantic_validation_node env w ?s1 = (?s2, w')"
    using assms reply by (simp add: semantic_node_conforms parse_response_def)
  have errs: "semantic_errors ?s2 = PList (map PStr [])"
    by simp
  have "typed_report ?s2 [] =
          \<lparr>overall_valid = True,
           schema_validation = \<lparr>passed = True, errors = []\<rparr>,
           semantic_validation = \<lparr>passed = True, errors = PList []\<rparr>,
           summary = ''JSON data is valid according to both schema and semantic rules.''\<rparr>"
    using assms(1) by (simp add: typed_report_def structural_state_eq initial_state_def)
  with validate_json_conforms_strs [OF assms(1) node errs]
  show "validate_json env w data sch [] =
          (Inr (Some \<lparr>overall_valid = True,
                       schema_validation = \<lparr>passed = True, errors = []\<rparr>,
                       semantic_validation = \<lparr>passed = True, errors = PList []\<rparr>,
                       summary = ''JSON data is valid according to both schema and semantic rules.''\<rparr>),
           w')"
    by simp
qed

theorem empty_rules_follow_the_judge_witness:
  \<open>jsonschema_validate passing_env sample_json create_sample_schema = Conforms
   \<and> messages passing_env sample_json [] = Inr (sample_request [])
   \<and> llm_invoke passing_env 0 (sample_request [])
       = (Responds ''{"is_valid": true, "errors": []}'', 1)
   \<and> json_loads passing_env ''{"is_valid": true, "errors": []}''
       = Loaded (PDict [(''is_valid'', PBool True), (''errors'', PList [])])
   \<and> truthy (PBool True)
   \<and> snd (validate_json passing_env 0 sample_json create_sample_schema []) = 1
   \<and> validate_json passing_env 0 sample_json create_sample_schema []
       = (Inr (Some passing_report), 1)\<close>
  using empty_rules_follow_the_judge
          [of passing_env sample_json create_sample_schema "sample_request []" 0]
  by (simp add: passing_env_def passing_report_def fake_env_def messages_def human_prompt_def
        sample_request_def two_rules_def)

text \<open>
  C9. The final assessment, on every state whose \<^verbatim>\<open>semantic_errors\<close> is a list of
  strings: \<open>schema_validation.passed\<close> holds exactly if the schema error list is empty,
  \<open>semantic_validation.passed\<close> exactly if the semantic error list is empty, both lists
  are copied unchanged, and the summary is the fixed confirmation string when
  \<open>overall_valid\<close> is true; otherwise it is \<open>"JSON data is invalid. Issues found: "\<close>
  followed by the sections \<open>"Schema validation failed: ..."\<close> and
  \<open>"Semantic validation failed: ..."\<close>, each present only if its list is not empty,
  separated by \<open>" | "\<close>, the errors within a section separated by \<open>"; "\<close>.
\<close>

theorem report_builder_fields:
  assumes "semantic_errors state = PList (map PStr es)"
  shows "final_assessment_node state =
           Inr (state
             \<lparr>is_valid := (status state = SEMANTIC_VALID),
              status := COMPLETE,
              validation_report := Some
                \<lparr>overall_valid = (status state = SEMANTIC_VALID),
                 schema_validation =
                   \<lparr>passed = (schema_errors state = []), errors = schema_errors state\<rparr>,
                 semantic_validation = \<lparr>passed = (es = []), errors = PList (map PStr es)\<rparr>,
                 summary =
                   (if status state = SEMANTIC_VALID
                    then ''JSON data is valid according to both schema and semantic rules.''
                    else ''JSON data is invalid. Issues found: ''
                         @ join '' | ''
                             ((if schema_errors state = [] then []
                               else [''Schema validation failed: ''
                                     @ join ''; '' (schema_errors state)])
                              @ (if es = [] then []
                                 else [''Semantic validation failed: '' @ join ''; '' es])))\<rparr>\<rparr>)"
  using final_assessment_strs [OF assms] by (simp add: typed_report_def)

theorem report_builder_fields_witness:
  "semantic_errors both_failed_state
     = PList (map PStr [''Version is not semantic'', ''Timestamp is in the future''])
   \<and> final_assessment_node both_failed_state =
       Inr (both_failed_state
         \<lparr>is_valid := False,
          status := COMPLETE,
          validation_report := Some
            \<lparr>overall_valid = False,
             schema_validation =
               \<lparr>passed = False, errors = [''-5 is less than the minimum of 0'']\<rparr>,
             semantic_validation =
               \<lparr>passed = False,
                errors = PList [PStr ''Version is not semantic'', PStr ''Timestamp is in the future'']\<rparr>,
             summary = ''JSON data is invalid. Issues found: Schema validation failed: -5 is less than the minimum of 0 | Semantic validation failed: Version is not semantic; Timestamp is in the future''\<rparr>\<rparr>)"
  using report_builder_fields
          [of both_failed_state "[''Version is not semantic'', ''Timestamp is in the future'']"]
  by (simp add: both_failed_state_def initial_state_def)

text \<open>
  C10, as the claim has it, fails for a verdict that is present, is not \<^verbatim>\<open>true\<close> and is
  truthy. The run: the sample document conforms and the judge answers
  \<^verbatim>\<open>{"is_valid": "no"}\<close>. The semantic phase ends in \<^const>\<open>SEMANTIC_VALID\<close> and the
  report is valid overall.
\<close>

theorem string_verdict_counterexample:
  \<open>jsonschema_validate string_verdict_env sample_json create_sample_schema = Conforms
   \<and> messages string_verdict_env sample_json two_rules = Inr (sample_request two_rules)
   \<and> llm_invoke string_verdict_env 0 (sample_request two_rules)
       = (Responds ''{"is_valid": "no"}'', 1)
   \<and> json_loads string_verdict_env ''{"is_valid": "no"}''
       = Loaded (PDict [(''is_valid'', PStr ''no'')])
   \<and> map_of [(''is_valid'', PStr ''no'')] ''is_valid'' \<noteq> Some (PBool True)
   \<and> status (semantic_state string_verdict_env 0 sample_json create_sample_schema two_rules)
       = SEMANTIC_VALID
   \<and> validate_json string_verdict_env 0 sample_json create_sample_schema two_rules
       = (Inr (Some passing_report), 1)
   \<and> overall_valid passing_report\<close>
  by (simp add: run_defs structural_state_def semantic_state_def string_verdict_env_def
        passing_report_def messages_def human_prompt_def sample_request_def two_rules_def)

text \<open>
  C10, as amended. For a document that conforms to the schema, if the reply of the judge
  to the request built from the document and the rules decodes to an object whose \<^verbatim>\<open>is_valid\<close> is absent or falsy, the semantic phase ends
  in \<^const>\<open>SEMANTIC_INVALID\<close>, the semantic errors are the value under \<^verbatim>\<open>errors\<close>, or
  \<open>["Semantic validation failed"]\<close> when that key is absent, and every report returned
  is invalid overall; when the key is absent the report is returned and is the one
  stated.
\<close>

theorem falsy_is_valid_fails:
  assumes "jsonschema_validate env data sch = Conforms"
      and "messages env data rules = Inr msgs"
      and "llm_invoke env w msgs = (Responds content, w')"
      and "json_loads env content = Loaded (PDict kvs)"
      and "\<not> truthy (case map_of kvs ''is_valid'' of None \<Rightarrow> PBool False | Some v \<Rightarrow> v)"
  shows "status (semantic_state env w data sch rules) = SEMANTIC_INVALID
         \<and> semantic_errors (semantic_state env w data sch rules)
             = (case map_of kvs ''errors'' of
                  None \<Rightarrow> PList [PStr ''Semantic validation failed'']
                | Some es \<Rightarrow> es)
         \<and> (\<forall>r. fst (validate_json env w data sch rules) = Inr r \<longrightarrow>
                (\<exists>rep. r = Some rep \<and> \<not> overall_valid rep))
         \<and> (map_of kvs ''errors'' = None \<longrightarrow>
              validate_json env w data sch rules =
                (Inr (Some \<lparr>overall_valid = False,
                             schema_validation = \<lparr>passed = True, errors = []\<rparr>,
                             semantic_validation =
                               \<lparr>passed = False,
                                errors = PList [PStr ''Semantic validation failed'']\<rparr>,
                             summary = ''JSON data is invalid. Issues found: Semantic validation failed: Semantic validation failed''\<rparr>),
                 w'))"
proof -
  let ?s1 = "structural_state env data sch rules"
  let ?es = "case map_of kvs ''errors'' of
               None \<Rightarrow> PList [PStr ''Semantic validation failed''] | Some es \<Rightarrow> es"
  let ?s2 = "?s1\<lparr>status := SEMANTIC_INVALID, semantic_errors := ?es\<rparr>"
  have node: "semantic_validation_node env w ?s1 = (?s2, w')"
    using assms by (simp add: semantic_node_conforms parse_response_def)
  then have sem: "semantic_state env w data sch rules = ?s2"
    by (simp add: semantic_state_def)
  have st: "status (semantic_state env w data sch rules) = SEMANTIC_INVALID"
    by (simp add: sem)
  have er: "semantic_errors (semantic_state env w data sch rules) = ?es"
    by (simp add: sem)
  have inv: "\<forall>r. fst (validate_json env w data sch rules) = Inr r \<longrightarrow>
               (\<exists>rep. r = Some rep \<and> \<not> overall_valid rep)"
    using assms(1) st
    by (auto simp: validate_json_conforms final_assessment_node_def Let_def split: sum.splits)
  have dflt: "map_of kvs ''errors'' = None \<longrightarrow>
              validate_json env w data sch rules =
                (Inr (Some \<lparr>overall_valid = False,
                             schema_validation = \<lparr>passed = True, errors = []\<rparr>,
                             semantic_validation =
                               \<lparr>passed = False,
                                errors = PList [PStr ''Semantic validation failed'']\<rparr>,
                             summary = ''JSON data is invalid. Issues found: Semantic validation failed: Semantic validation failed''\<rparr>),
                 w')"
  proof
    assume none: "map_of kvs ''errors'' = None"
    then have errs: "semantic_errors ?s2 = PList (map PStr [''Semantic validation failed''])"
      by simp
    have "typed_report ?s2 [''Semantic validation failed''] =
            \<lparr>overall_valid = False,
             schema_validation = \<lparr>passed = True, errors = []\<rparr>,
             semantic_validation =
               \<lparr>passed = False, errors = PList [PStr ''Semantic validation failed'']\<rparr>,
             summary = ''JSON data is invalid. Issues found: Semantic validation failed: Semantic validation failed''\<rparr>"
      using assms(1) by (simp add: typed_report_def structural_state_eq initial_state_def)
    with validate_json_conforms_strs [OF assms(1) node errs]
    show "validate_json env w data sch rules =
            (Inr (Some \<lparr>overall_valid = False,
                         schema_validation = \<lparr>passed = True, errors = []\<rparr>,
                         semantic_validation =
                           \<lparr>passed = False,
                            errors = PList [PStr ''Semantic validation failed'']\<rparr>,
                         summary = ''JSON data is invalid. Issues found: Semantic validation failed: Semantic validation failed''\<rparr>),
             w')"
      by simp
  qed
  from st er inv dflt show ?thesis by blast
qed

theorem falsy_is_valid_fails_witness:
  \<open>jsonschema_validate rejecting_env sample_json create_sample_schema = Conforms
   \<and> messages rejecting_env sample_json two_rules = Inr (sample_request two_rules)
   \<and> llm_invoke rejecting_env 0 (sample_request two_rules)
       = (Responds ''{"is_valid": false}'', 1)
   \<and> json_loads rejecting_env ''{"is_valid": false}'' = Loaded (PDict [(''is_valid'', PBool False)])
   \<and> truthy (PBool False) = False
   \<and> map_of [(''is_valid'', PBool False)] ''errors'' = None
   \<and> status (semantic_state rejecting_env 0 sample_json create_sample_schema two_rules)
       = SEMANTIC_INVALID
   \<and> semantic_errors (semantic_state rejecting_env 0 sample_json create_sample_schema two_rules)
       = PList [PStr ''Semantic validation failed'']
   \<and> validate_json rejecting_env 0 sample_json create_sample_schema two_rules
       = (Inr (Some rejecting_report), 1)
   \<and> overall_valid rejecting_report = False\<close>
  using falsy_is_valid_fails
          [of rejecting_env sample_json create_sample_schema two_rules "sample_request two_rules" 0
              \<open>''{"is_valid": false}''\<close> 1 "[(''is_valid'', PBool False)]"]
  by (simp add: rejecting_env_def rejecting_report_def fake_env_def messages_def
        human_prompt_def sample_request_def two_rules_def)

end
